theory Spec2Isabelle
  imports Complex_Main
begin

section \<open>JavaScript numbers\<close>

text \<open>
  A JavaScript number is a finite value, one of the two infinities, or NaN. The sign of
  zero is not modelled. \<open>times_num\<close> is the product by a finite right operand, taken
  without rounding; the yield calculator uses it. The loan calculator is evaluated in
  IEEE double arithmetic, which the next section defines.
\<close>

datatype number = Num real | PosInf | NegInf | NaN

text \<open>\<open>x * y\<close> with \<open>y\<close> finite.\<close>

fun times_num :: "number \<Rightarrow> real \<Rightarrow> number" where
  "times_num (Num x) y = Num (x * y)"
| "times_num NaN y = NaN"
| "times_num PosInf y = (if y = 0 then NaN else if 0 < y then PosInf else NegInf)"
| "times_num NegInf y = (if y = 0 then NaN else if 0 < y then NegInf else PosInf)"


text \<open>\<open>ToNumber\<close> of a property read: \<open>undefined\<close> (no such property) is NaN.\<close>

fun ToNumber :: "real option \<Rightarrow> number" where
  "ToNumber None = NaN"
| "ToNumber (Some x) = Num x"

section \<open>Double arithmetic\<close>

text \<open>
  IEEE 754 binary64 with rounding to nearest, ties to even. \<open>ulp x\<close> is the spacing of
  the doubles around the real \<open>x\<close>: \<open>2^(e - 52)\<close> when \<open>2^e \<le> |x| < 2^(e + 1)\<close>, and
  \<open>2^-1074\<close> below \<open>2^-1022\<close>, where the doubles are subnormal. \<open>fl x\<close> is the double
  nearest to \<open>x\<close>; a rounded magnitude of \<open>2^1024\<close> or more is an infinity.
\<close>

definition round_even :: "real \<Rightarrow> int" where
  "round_even y =
     (let f = \<lfloor>y\<rfloor>; d = y - of_int f
      in if d < 1 / 2 then f else if 1 / 2 < d then f + 1 else if even f then f else f + 1)"

definition ulp :: "real \<Rightarrow> real" where
  "ulp x = (if \<bar>x\<bar> < 2 powi (- 1022) then 2 powi (- 1074) else 2 powi (\<lfloor>log 2 \<bar>x\<bar>\<rfloor> - 52))"

definition huge :: real where
  "huge = 2 ^ 1024"

definition fl :: "real \<Rightarrow> number" where
  "fl x =
     (let y = of_int (round_even (x / ulp x)) * ulp x
      in if huge \<le> y then PosInf else if y \<le> - huge then NegInf else Num y)"

text \<open>
  The four operations on doubles: the exact result rounded by \<open>fl\<close> on finite operands,
  and the IEEE results on infinities, NaN and a zero divisor.
\<close>

fun fneg :: "number \<Rightarrow> number" where
  "fneg (Num x) = Num (- x)"
| "fneg PosInf = NegInf"
| "fneg NegInf = PosInf"
| "fneg NaN = NaN"

fun fadd :: "number \<Rightarrow> number \<Rightarrow> number" where
  "fadd (Num x) (Num y) = fl (x + y)"
| "fadd NaN _ = NaN"
| "fadd _ NaN = NaN"
| "fadd PosInf NegInf = NaN"
| "fadd NegInf PosInf = NaN"
| "fadd PosInf _ = PosInf"
| "fadd NegInf _ = NegInf"
| "fadd _ PosInf = PosInf"
| "fadd _ NegInf = NegInf"

definition fsub :: "number \<Rightarrow> number \<Rightarrow> number" where
  "fsub a b = fadd a (fneg b)"

fun fmul :: "number \<Rightarrow> number \<Rightarrow> number" where
  "fmul (Num x) (Num y) = fl (x * y)"
| "fmul NaN _ = NaN"
| "fmul _ NaN = NaN"
| "fmul (Num x) PosInf = (if x = 0 then NaN else if 0 < x then PosInf else NegInf)"
| "fmul (Num x) NegInf = (if x = 0 then NaN else if 0 < x then NegInf else PosInf)"
| "fmul PosInf (Num y) = (if y = 0 then NaN else if 0 < y then PosInf else NegInf)"
| "fmul NegInf (Num y) = (if y = 0 then NaN else if 0 < y then NegInf else PosInf)"
| "fmul PosInf PosInf = PosInf"
| "fmul PosInf NegInf = NegInf"
| "fmul NegInf PosInf = NegInf"
| "fmul NegInf NegInf = PosInf"

fun fdiv :: "number \<Rightarrow> number \<Rightarrow> number" where
  "fdiv (Num x) (Num y) =
     (if y \<noteq> 0 then fl (x / y)
      else if x = 0 then NaN
      else if 0 < x then PosInf else NegInf)"
| "fdiv NaN _ = NaN"
| "fdiv _ NaN = NaN"
| "fdiv (Num x) _ = Num 0"
| "fdiv PosInf (Num y) = (if 0 \<le> y then PosInf else NegInf)"
| "fdiv NegInf (Num y) = (if 0 \<le> y then NegInf else PosInf)"
| "fdiv _ _ = NaN"

section \<open>The loan calculator \<open>EMICalc\<close>\<close>









section \<open>Thrown values\<close>

text \<open>
  A value thrown by JavaScript code, or the reason of a rejected promise. A function that
  can throw, and an \<open>async\<close> function, return \<open>exn + 'a\<close>: \<open>Inl\<close> is the throw or the
  rejection, \<open>Inr\<close> the value returned or resolved to.
\<close>

datatype exn = Error string | TypeError string | SyntaxError string | DOMException string

section \<open>The yield calculator \<open>YieldCalc\<close>\<close>

text \<open>
  \<^verbatim>\<open>
  const baseYield = { Wheat: 18, Rice: 22, Maize: 20, Tomato: 80, Onion: 100 };
  const yieldQtl = baseYield[crop] * area * factor;
  const revenue = yieldQtl * 2000;
  \<close>
  Reading a key that the table does not have gives \<open>undefined\<close>, which the product
  turns into NaN. The body has no \<open>throw\<close>: the result is always \<open>Inr\<close>.
\<close>

definition baseYield :: "string \<rightharpoonup> real" where
  "baseYield =
     map_of [(''Wheat'', 18), (''Rice'', 22), (''Maize'', 20), (''Tomato'', 80), (''Onion'', 100)]"

record yield_out =
  yieldQtl :: number
  revenue :: number

definition YieldCalc :: "string \<Rightarrow> real \<Rightarrow> real \<Rightarrow> exn + yield_out" where
  "YieldCalc crop area factor =
     (let yieldQtl = times_num (times_num (ToNumber (baseYield crop)) area) factor;
          revenue = times_num yieldQtl 2000
      in Inr \<lparr>yieldQtl = yieldQtl, revenue = revenue\<rparr>)"

section \<open>The trend heuristic \<open>DecisionMeter\<close>\<close>

text \<open>
  \<^verbatim>\<open>
  if (series.length < 4) return 0;
  const last = series.slice(-4);
  return Math.sign(last[3] - last[0]);
  ...
  const text = trend > 0 ? "Hold (Uptrend)" : trend < 0 ? "Sell Soon (Downtrend)" : "Neutral";
  \<close>
  \<open>slice(-k)\<close> keeps the last \<open>k\<close> elements, all of them when there are fewer. The two
  reads \<open>last[3]\<close> and \<open>last[0]\<close> are in range: \<open>last\<close> has 4 elements on that branch.
\<close>

definition slice_end :: "nat \<Rightarrow> 'a list \<Rightarrow> 'a list" where
  "slice_end k xs = drop (length xs - k) xs"

definition Math_sign :: "real \<Rightarrow> real" where
  "Math_sign x = (if 0 < x then 1 else if x < 0 then - 1 else 0)"

definition trend :: "real list \<Rightarrow> real" where
  "trend series =
     (if length series < 4 then 0
      else let last = slice_end 4 series in Math_sign (last ! 3 - last ! 0))"

definition DecisionMeter :: "real list \<Rightarrow> string" where
  "DecisionMeter series =
     (let t = trend series
      in if 0 < t then ''Hold (Uptrend)''
         else if t < 0 then ''Sell Soon (Downtrend)''
         else ''Neutral'')"

section \<open>The listing store of \<open>DigitalMandiPage\<close>\<close>

text \<open>
  The form holds five fields; a listing is the form's fields with an id and a timestamp
  (\<open>{ id: genId(), ts: Date.now(), ...form }\<close>). The id field is named \<open>item_id\<close> here.
  The quantity and the price are JavaScript numbers (\<open>+e.target.value\<close>).
\<close>

record listing_form =
  crop :: string
  qty :: number
  price :: number
  location :: string
  contact :: string

record listing = listing_form +
  item_id :: string
  ts :: nat

definition initial :: listing_form where
  "initial = \<lparr>crop = ''Tomato'', qty = Num 10, price = Num 1500,
              location = ''Bhubaneswar'', contact = ''9999999999''\<rparr>"

text \<open>
  The browser's storage and the two built-ins used to write it. \<open>JSON.stringify\<close> and
  \<open>localStorage.setItem\<close> can throw (the quota, a disabled storage); they are parameters
  of the model.
\<close>

type_synonym storage = "string \<rightharpoonup> string"

record env =
  JSON_stringify :: "listing list \<Rightarrow> exn + string"
  setItem :: "storage \<Rightarrow> string \<Rightarrow> string \<Rightarrow> exn + storage"

record page =
  items :: "listing list"
  form :: listing_form
  localStorage :: storage

text \<open>
  The effect of \<open>useLocalStorage\<close>, run after a render in which the state was set:
  \<^verbatim>\<open>
  try { localStorage.setItem(key, JSON.stringify(state)); } catch (e) {}
  \<close>
\<close>

definition persist :: "env \<Rightarrow> string \<Rightarrow> listing list \<Rightarrow> storage \<Rightarrow> storage" where
  "persist e key state st =
     (case JSON_stringify e state of
        Inl _ \<Rightarrow> st
      | Inr text \<Rightarrow> (case setItem e st key text of Inl _ \<Rightarrow> st | Inr st' \<Rightarrow> st'))"

definition run_effect :: "env \<Rightarrow> page \<Rightarrow> page" where
  "run_effect e pg = pg\<lparr>localStorage := persist e ''mandi-items'' (items pg) (localStorage pg)\<rparr>"

text \<open>
  \<^verbatim>\<open>
  function genId() {
    try {
      if (typeof crypto !== "undefined" && typeof crypto.randomUUID === "function") {
        return crypto.randomUUID();
      }
    } catch (e) {}
    return "id-" + Math.random().toString(36).slice(2, 9) + "-" + Date.now().toString(36).slice(-5);
  }
  \<close>
  What \<open>genId\<close> reads from the browser: whether \<open>crypto.randomUUID\<close> exists and, if so,
  the outcome of calling it; the text of \<open>Math.random().toString(36)\<close>; the text of
  \<open>Date.now().toString(36)\<close>. Nothing in \<open>genId\<close> or in \<open>addItem\<close> compares the id with
  the ids of the collection.
\<close>

datatype crypto_api = NoRandomUUID | RandomUUID "exn + string"

record id_source =
  crypto :: crypto_api
  random36 :: string
  now36 :: string

text \<open>\<open>s.slice(a, b)\<close> for \<open>0 \<le> a \<le> b\<close>.\<close>

definition slice :: "nat \<Rightarrow> nat \<Rightarrow> 'a list \<Rightarrow> 'a list" where
  "slice a b xs = take (b - a) (drop a xs)"

definition genId :: "id_source \<Rightarrow> string" where
  "genId src =
     (case crypto src of
        RandomUUID (Inr u) \<Rightarrow> u
      | _ \<Rightarrow> ''id-'' @ slice 2 9 (random36 src) @ ''-'' @ slice_end 5 (now36 src))"

text \<open>
  \<^verbatim>\<open>
  const addItem = () => {
    if (!form.crop || !form.location || !form.contact) return;
    const next = [...items, { id: genId(), ts: Date.now(), ...form }];
    setItems(next);
    setForm(initial);
  };
  const remove = (id) => setItems(items.filter((i) => i.id !== id));
  \<close>
  \<open>gid\<close> is the value returned by \<open>genId()\<close> and \<open>now\<close> that of \<open>Date.now()\<close>. A string
  is falsy exactly when it is empty. The early return sets no state, so no effect runs.
\<close>

definition new_listing :: "string \<Rightarrow> nat \<Rightarrow> listing_form \<Rightarrow> listing" where
  "new_listing gid now f =
     \<lparr>crop = crop f, qty = qty f, price = price f, location = location f,
      contact = contact f, item_id = gid, ts = now\<rparr>"

definition addItem :: "env \<Rightarrow> string \<Rightarrow> nat \<Rightarrow> page \<Rightarrow> page" where
  "addItem e gid now pg =
     (if crop (form pg) = [] \<or> location (form pg) = [] \<or> contact (form pg) = [] then pg
      else let next = items pg @ [new_listing gid now (form pg)]
           in run_effect e (pg\<lparr>items := next, form := initial\<rparr>))"

definition remove :: "env \<Rightarrow> string \<Rightarrow> page \<Rightarrow> page" where
  "remove e i pg = run_effect e (pg\<lparr>items := filter (\<lambda>it. item_id it \<noteq> i) (items pg)\<rparr>)"

text \<open>
  An environment in which neither built-in throws, for evaluating the store on examples.
\<close>

definition plain_env :: env where
  "plain_env = \<lparr>JSON_stringify = (\<lambda>xs. Inr (replicate (length xs) CHR ''*'')),
                setItem = (\<lambda>st k v. Inr (st(k \<mapsto> v)))\<rparr>"

section \<open>Loading the persisted state: \<open>useLocalStorage\<close>\<close>

text \<open>
  \<^verbatim>\<open>
  try {
    const raw = localStorage.getItem(key);
    return raw ? JSON.parse(raw) : initialValue;
  } catch (e) {
    return initialValue;
  }
  \<close>
  \<open>getItem\<close> returns \<open>null\<close> (here \<open>None\<close>) for a missing record and can throw;
  \<open>JSON.parse\<close> throws on a text that does not parse. Both are parameters.
\<close>

definition useLocalStorage_init ::
  "(string \<Rightarrow> exn + string option) \<Rightarrow> (string \<Rightarrow> exn + 'a) \<Rightarrow> string \<Rightarrow> 'a \<Rightarrow> exn + 'a" where
  "useLocalStorage_init getItem JSON_parse key initialValue =
     (case getItem key of
        Inl _ \<Rightarrow> Inr initialValue
      | Inr raw \<Rightarrow>
          (case raw of
             None \<Rightarrow> Inr initialValue
           | Some text \<Rightarrow>
               if text = [] then Inr initialValue
               else (case JSON_parse text of
                       Inl _ \<Rightarrow> Inr initialValue
                     | Inr v \<Rightarrow> Inr v)))"

text \<open>The listing collection: \<open>useLocalStorage("mandi-items", [])\<close>.\<close>

definition load_items ::
  "(string \<Rightarrow> exn + string option) \<Rightarrow> (string \<Rightarrow> exn + listing list) \<Rightarrow> exn + listing list" where
  "load_items getItem JSON_parse = useLocalStorage_init getItem JSON_parse ''mandi-items'' []"

section \<open>Disease detection: \<open>detectDisease\<close> and its wrapper\<close>

text \<open>A value produced by \<open>JSON.parse\<close>; an object is the list of its own properties.\<close>

datatype js_value =
  JNull | JBool bool | JNum real | JStr string
  | JArr "js_value list" | JObj "(string \<times> js_value) list"

text \<open>
  A response of \<open>fetch\<close>: its status code and the outcome of \<open>res.json()\<close>. The property
  \<open>res.ok\<close> is true for the statuses 200 to 299.
\<close>

record response =
  status :: nat
  json :: "exn + js_value"

definition ok :: "response \<Rightarrow> bool" where
  "ok res = (200 \<le> status res \<and> status res \<le> 299)"

text \<open>
  \<^verbatim>\<open>
  const res = await fetch(`${API_BASE_URL}/crop-disease`, { method: 'POST', body: formData });
  if (!res.ok) throw new Error('Detection failed');
  return res.json();
  \<close>
  \<open>fetch\<close> is a parameter: the outcome of the request for the given file, a rejection
  on a network error.
\<close>

definition detectDisease :: "('f \<Rightarrow> exn + response) \<Rightarrow> 'f \<Rightarrow> exn + js_value" where
  "detectDisease fetch file =
     (case fetch file of
        Inl e \<Rightarrow> Inl e
      | Inr res \<Rightarrow> if \<not> ok res then Inl (Error ''Detection failed'') else json res)"

text \<open>
  Reading a property \<open>r.k\<close> of a parsed value: a TypeError on \<open>null\<close>, the property or
  \<open>undefined\<close> (\<open>None\<close>) on an object, \<open>undefined\<close> on the other values for the three
  names read here.
\<close>

fun get_prop :: "js_value \<Rightarrow> string \<Rightarrow> exn + js_value option" where
  "get_prop JNull k = Inl (TypeError ''Cannot read properties of null'')"
| "get_prop (JObj kvs) k = Inr (map_of kvs k)"
| "get_prop v k = Inr None"

record detection =
  name :: "js_value option"
  remedy :: "js_value option"
  confidence :: "js_value option"

definition fallback :: detection where
  "fallback = \<lparr>name = Some (JStr ''Unavailable''),
               remedy = Some (JStr ''Backend not reachable.''),
               confidence = Some (JNum 0)\<rparr>"

text \<open>
  \<^verbatim>\<open>
  try {
    const r = await detectDisease(file);
    return { name: r.disease, remedy: r.remedy, confidence: r.confidence };
  } catch (e) {
    return { name: "Unavailable", remedy: "Backend not reachable.", confidence: 0 };
  }
  \<close>
\<close>

definition detectDiseaseWithBackend :: "('f \<Rightarrow> exn + response) \<Rightarrow> 'f \<Rightarrow> exn + detection" where
  "detectDiseaseWithBackend fetch file =
     (case detectDisease fetch file of
        Inl _ \<Rightarrow> Inr fallback
      | Inr r \<Rightarrow>
          (case get_prop r ''disease'' of
             Inl _ \<Rightarrow> Inr fallback
           | Inr d \<Rightarrow>
               (case get_prop r ''remedy'' of
                  Inl _ \<Rightarrow> Inr fallback
                | Inr m \<Rightarrow>
                    (case get_prop r ''confidence'' of
                       Inl _ \<Rightarrow> Inr fallback
                     | Inr c \<Rightarrow> Inr \<lparr>name = d, remedy = m, confidence = c\<rparr>))))"

section \<open>Properties of double rounding\<close>


lemma round_even_of_int [simp]: "round_even (of_int z) = z"
  by (simp add: round_even_def)



lemma floor_log2_binade:
  assumes "2 powi e \<le> \<bar>x\<bar>" "\<bar>x\<bar> < 2 powi (e + 1)"
  shows "\<lfloor>log 2 \<bar>x\<bar>\<rfloor> = e"
proof -
  have pos: "0 < \<bar>x\<bar>"
    using assms(1) by (smt (verit) zero_less_power_int)
  have a: "(2::real) powr (real_of_int e) = 2 powi e"
    by (rule powr_real_of_int') simp_all
  have "(2::real) powr (real_of_int (e + 1)) = 2 powi (e + 1)"
    by (rule powr_real_of_int') simp_all
  then have b: "(2::real) powr (real_of_int e + 1) = 2 powi (e + 1)"
    by simp
  have "2 powr (real_of_int e) \<le> \<bar>x\<bar> \<and> \<bar>x\<bar> < 2 powr (real_of_int e + 1)"
    unfolding a b using assms by simp
  then show ?thesis
    using floor_log_eq_powr_iff [OF pos, of 2 e] by simp
qed

text \<open>fl on a value with a known binade.\<close>

lemma fl_binade:
  assumes "2 powi e \<le> \<bar>x\<bar>" "\<bar>x\<bar> < 2 powi (e + 1)" "- 1022 \<le> e"
  shows "ulp x = 2 powi (e - 52)"
proof -
  have "2 powi (- 1022) \<le> (2::real) powi e"
    using assms(3) by (intro power_int_increasing) simp_all
  then have "\<not> \<bar>x\<bar> < 2 powi (- 1022)"
    using assms(1) by linarith
  then show ?thesis
    using floor_log2_binade [OF assms(1,2)] by (simp add: ulp_def)
qed








lemma fl_tie_down: "fl (1 + 1 / 2 ^ 53) = Num 1"
proof -
  have "(2::real) powi 0 \<le> \<bar>1 + 1 / 2 ^ 53\<bar>" "\<bar>1 + 1 / 2 ^ 53 :: real\<bar> < 2 powi (0 + 1)"
    by simp_all
  then have u: "ulp (1 + 1 / 2 ^ 53) = 2 powi (0 - 52)"
    by (rule fl_binade) simp
  show ?thesis
    unfolding fl_def u by (simp add: round_even_def huge_def)
qed

lemma fl_tie_up: "fl (1 + 3 / 2 ^ 53) = Num (1 + 1 / 2 ^ 51)"
proof -
  have "(2::real) powi 0 \<le> \<bar>1 + 3 / 2 ^ 53\<bar>" "\<bar>1 + 3 / 2 ^ 53 :: real\<bar> < 2 powi (0 + 1)"
    by simp_all
  then have u: "ulp (1 + 3 / 2 ^ 53) = 2 powi (0 - 52)"
    by (rule fl_binade) simp
  show ?thesis
    unfolding fl_def u by (simp add: round_even_def huge_def)
qed

lemma fl_overflow: "fl (2 ^ 1024 - 2 ^ 970) = PosInf"
proof -
  have "(2::real) powi 1023 \<le> \<bar>2 ^ 1024 - 2 ^ 970\<bar>" "\<bar>2 ^ 1024 - 2 ^ 970 :: real\<bar> < 2 powi (1023 + 1)"
    by simp_all
  then have u: "ulp (2 ^ 1024 - 2 ^ 970) = 2 powi (1023 - 52)"
    by (rule fl_binade) simp
  show ?thesis
    unfolding fl_def u by (simp add: round_even_def huge_def)
qed

lemma fl_subnormal_tie: "fl (3 / 2 ^ 1075) = Num (1 / 2 ^ 1073)"
proof -
  have "\<bar>3 / 2 ^ 1075 :: real\<bar> < 2 powi (- 1022)"
    by simp
  then have u: "ulp (3 / 2 ^ 1075) = 2 powi (- 1074)"
    by (simp add: ulp_def)
  show ?thesis
    unfolding fl_def u by (simp add: round_even_def huge_def)
qed

lemma fl_tenth: "fl (1 / 10) = Num (3602879701896397 / 2 ^ 55)"
proof -
  have "(2::real) powi (- 4) \<le> \<bar>1 / 10\<bar>" "\<bar>1 / 10 :: real\<bar> < 2 powi (- 4 + 1)"
    by simp_all
  then have u: "ulp (1 / 10) = 2 powi (- 4 - 52)"
    by (rule fl_binade) simp
  show ?thesis
    unfolding fl_def u by (simp add: round_even_def huge_def)
qed

section \<open>Properties of the loan calculator\<close>












lemma ieee_special_cases:
  "fdiv (Num 1) (Num 0) = PosInf" "fdiv (Num (- 1)) (Num 0) = NegInf" "fdiv (Num 0) (Num 0) = NaN"
  "fdiv (Num 1) PosInf = Num 0" "fdiv PosInf NegInf = NaN" "fdiv NegInf (Num (- 2)) = PosInf"
  "fmul (Num 0) PosInf = NaN" "fmul (Num (- 3)) PosInf = NegInf" "fmul NegInf NegInf = PosInf"
  "fadd PosInf NegInf = NaN" "fadd (Num 1) NegInf = NegInf" "fsub PosInf PosInf = NaN"
  "fsub PosInf (Num 1) = PosInf" "fadd NaN (Num 1) = NaN"
  by (simp_all add: fsub_def)


























section \<open>Properties of the yield calculator\<close>

lemma baseYield_supported:
  "c \<in> dom baseYield \<longleftrightarrow> c \<in> {''Wheat'', ''Rice'', ''Maize'', ''Tomato'', ''Onion''}"
  by (auto simp: baseYield_def dom_def split: if_splits)



text \<open>
  Claim C7 as stated (an unknown crop key fails with an InvalidArgument error) does not
  hold: for the key \<open>Barley\<close>, which the table does not have, \<open>YieldCalc\<close> returns a
  result and raises nothing.
\<close>

theorem YieldCalc_unknown_crop_counterexample:
  "YieldCalc ''Barley'' 1 1 = Inr \<lparr>yieldQtl = NaN, revenue = NaN\<rparr>"
  by (simp add: YieldCalc_def baseYield_def)

text \<open>
  Claim C7, amended. For every crop key that is not in the base-yield table, \<open>YieldCalc\<close>
  raises no error: it returns NaN as the expected yield and as the revenue, whatever the
  area and the factor.
\<close>

theorem YieldCalc_unknown_crop:
  assumes "c \<notin> dom baseYield"
  shows "YieldCalc c area factor = Inr \<lparr>yieldQtl = NaN, revenue = NaN\<rparr>"
  using assms by (simp add: YieldCalc_def Let_def dom_def)

theorem YieldCalc_unknown_crop_witness:
  "''Bajra'' \<notin> dom baseYield \<and> YieldCalc ''Bajra'' 2 (9 / 10) = Inr \<lparr>yieldQtl = NaN, revenue = NaN\<rparr>"
proof -
  have d: "''Bajra'' \<notin> dom baseYield" by (simp add: baseYield_def dom_def)
  show ?thesis using d YieldCalc_unknown_crop [OF d, of 2 "9 / 10"] by simp
qed

section \<open>Properties of the trend heuristic\<close>

lemma trend_window:
  assumes "4 \<le> length series"
  shows "trend series = Math_sign (series ! (length series - 1) - series ! (length series - 4))"
proof -
  have "slice_end 4 series ! 3 = series ! (length series - 1)"
    using assms by (simp add: slice_end_def)
  moreover have "slice_end 4 series ! 0 = series ! (length series - 4)"
    using assms by (simp add: slice_end_def)
  ultimately show ?thesis using assms by (simp add: trend_def Let_def)
qed

text \<open>
  Claim C3 as stated names the labels \<open>Hold\<close>, \<open>Neutral\<close> and \<open>Sell Soon\<close>. The text
  computed by \<open>DecisionMeter\<close> for the rising series \<open>[10, 10, 10, 20]\<close> is not \<open>Hold\<close>.
\<close>

theorem DecisionMeter_counterexample: "DecisionMeter [10, 10, 10, 20] \<noteq> ''Hold''"
  by (simp add: DecisionMeter_def trend_def slice_end_def Math_sign_def Let_def)

text \<open>
  Claim C3, amended. For a series of at least 4 samples \<open>DecisionMeter\<close> returns the sign
  of the last sample minus the sample 3 positions earlier, mapped to the texts
  \<open>Hold (Uptrend)\<close> (+1), \<open>Neutral\<close> (0) and \<open>Sell Soon (Downtrend)\<close> (-1); for fewer
  than 4 samples it returns \<open>Neutral\<close>. In particular \<open>[10,10,10,10]\<close> gives \<open>Neutral\<close>,
  \<open>[10,10,10,20]\<close> gives \<open>Hold (Uptrend)\<close> and \<open>[20,10,10,10]\<close> gives
  \<open>Sell Soon (Downtrend)\<close>.
\<close>

theorem DecisionMeter_labels:
  "(4 \<le> length series \<longrightarrow>
      DecisionMeter series =
        (let s = sgn (series ! (length series - 1) - series ! (length series - 4))
         in if s = 1 then ''Hold (Uptrend)''
            else if s = 0 then ''Neutral''
            else ''Sell Soon (Downtrend)''))
 \<and> (length series < 4 \<longrightarrow> DecisionMeter series = ''Neutral'')
 \<and> DecisionMeter [10, 10, 10, 10] = ''Neutral''
 \<and> DecisionMeter [10, 10, 10, 20] = ''Hold (Uptrend)''
 \<and> DecisionMeter [20, 10, 10, 10] = ''Sell Soon (Downtrend)''"
proof (intro conjI impI)
  assume "4 \<le> length series"
  then show "DecisionMeter series =
        (let s = sgn (series ! (length series - 1) - series ! (length series - 4))
         in if s = 1 then ''Hold (Uptrend)''
            else if s = 0 then ''Neutral''
            else ''Sell Soon (Downtrend)'')"
    by (simp add: DecisionMeter_def trend_window Math_sign_def Let_def sgn_real_def)
next
  assume "length series < 4"
  then show "DecisionMeter series = ''Neutral''"
    by (simp add: DecisionMeter_def trend_def)
qed (simp_all add: DecisionMeter_def trend_def slice_end_def Math_sign_def Let_def)

theorem DecisionMeter_labels_witness:
  "DecisionMeter [3, 9, 2, 7, 5, 1] = ''Sell Soon (Downtrend)'' \<and> DecisionMeter [4, 8, 6] = ''Neutral''"
  using DecisionMeter_labels [of "[3, 9, 2, 7, 5, 1]"] DecisionMeter_labels [of "[4, 8, 6]"]
  by (simp add: Let_def)

section \<open>Properties of the listing store\<close>

lemma items_run_effect: "items (run_effect e pg) = items pg"
  by (simp add: run_effect_def)

lemma form_run_effect: "form (run_effect e pg) = form pg"
  by (simp add: run_effect_def)

lemma truncate_new_listing: "listing_form.truncate (new_listing gid now f) = f"
  by (simp add: new_listing_def listing_form.truncate_def)

lemma item_id_new_listing: "item_id (new_listing gid now f) = gid"
  by (simp add: new_listing_def)

lemma ts_new_listing: "ts (new_listing gid now f) = now"
  by (simp add: new_listing_def)

lemma addItem_rejected:
  "crop (form pg) = [] \<or> location (form pg) = [] \<or> contact (form pg) = [] \<Longrightarrow>
   addItem e gid now pg = pg"
  by (simp add: addItem_def)

lemma items_addItem_accepted:
  "crop (form pg) \<noteq> [] \<Longrightarrow> location (form pg) \<noteq> [] \<Longrightarrow> contact (form pg) \<noteq> [] \<Longrightarrow>
   items (addItem e gid now pg) = items pg @ [new_listing gid now (form pg)]"
  by (simp add: addItem_def Let_def items_run_effect)

lemma localStorage_addItem_accepted:
  "crop (form pg) \<noteq> [] \<Longrightarrow> location (form pg) \<noteq> [] \<Longrightarrow> contact (form pg) \<noteq> [] \<Longrightarrow>
   localStorage (addItem e gid now pg) =
     persist e ''mandi-items'' (items pg @ [new_listing gid now (form pg)]) (localStorage pg)"
  by (simp add: addItem_def Let_def run_effect_def)

lemma items_remove: "items (remove e i pg) = filter (\<lambda>it. item_id it \<noteq> i) (items pg)"
  by (simp add: remove_def items_run_effect)

text \<open>
  Claim C2. For a listing \<open>L\<close> whose crop, location and contact are not empty, starting
  from an empty collection: after \<open>addItem\<close> the collection holds exactly one entry, equal
  to \<open>L\<close> apart from the generated id and timestamp; after \<open>remove\<close> of that entry's id
  the collection is empty.
\<close>

theorem listing_round_trip:
  assumes "crop L \<noteq> []" "location L \<noteq> []" "contact L \<noteq> []"
    and "items pg = []" "form pg = L"
  shows "\<exists>x. items (addItem e gid now pg) = [x]
           \<and> listing_form.truncate x = L
           \<and> items (remove e (item_id x) (addItem e gid now pg)) = []"
proof -
  let ?x = "new_listing gid now L"
  have a: "items (addItem e gid now pg) = [?x]"
    using assms by (simp add: items_addItem_accepted)
  have "items (remove e (item_id ?x) (addItem e gid now pg)) = []"
    by (simp add: items_remove a)
  with a truncate_new_listing [of gid now L] show ?thesis by blast
qed

theorem listing_round_trip_witness:
  "\<exists>x. items (addItem plain_env ''a1'' 7 \<lparr>items = [], form = initial, localStorage = Map.empty\<rparr>) = [x]
     \<and> listing_form.truncate x = initial
     \<and> items (remove plain_env (item_id x)
          (addItem plain_env ''a1'' 7 \<lparr>items = [], form = initial, localStorage = Map.empty\<rparr>)) = []"
  using listing_round_trip [of initial "\<lparr>items = [], form = initial, localStorage = Map.empty\<rparr>" plain_env "''a1''" 7]
  by (simp add: initial_def)

lemma genId_fallback:
  "genId \<lparr>crypto = NoRandomUUID, random36 = rnd, now36 = t\<rparr>
     = ''id-'' @ slice 2 9 rnd @ ''-'' @ slice_end 5 t"
  by (simp add: genId_def)

text \<open>
  Claim C8 as stated says that the id assigned is fresh and unique. Without
  \<open>crypto.randomUUID\<close>, two submissions whose random texts agree on the characters 2 to
  8 and whose clock texts agree on the last 5 characters get the same id: the collection
  then holds two entries with the id \<open>id-k3j9x2f-abcde\<close>.
\<close>

theorem addItem_id_collision_counterexample:
  "map item_id (items
     (addItem plain_env
        (genId \<lparr>crypto = NoRandomUUID, random36 = ''0.k3j9x2fzz1'', now36 = ''lq4abcde''\<rparr>) 60466183
        (addItem plain_env
           (genId \<lparr>crypto = NoRandomUUID, random36 = ''0.k3j9x2f8a1'', now36 = ''lq3abcde''\<rparr>) 7
           \<lparr>items = [], form = initial, localStorage = Map.empty\<rparr>)))
   = [''id-k3j9x2f-abcde'', ''id-k3j9x2f-abcde'']"
  by (simp add: genId_fallback slice_def slice_end_def addItem_def run_effect_def initial_def
      new_listing_def Let_def)

text \<open>
  Claim C8, amended. When the crop, the location or the contact of the form is empty,
  \<open>addItem\<close> changes nothing: the page, with its collection and its stored record, is
  returned as it was, and there is no error result. When all three are not empty,
  \<open>addItem\<close> appends at the end of the collection one listing carrying the form's fields,
  the time given by \<open>Date.now()\<close> and the id returned by \<open>genId()\<close>, which is the value
  of \<open>crypto.randomUUID()\<close> when that call succeeds and otherwise \<open>id-\<close>, the characters
  2 to 8 of a random text, \<open>-\<close> and the last 5 characters of the clock text; the id is
  not compared with the ids in use, so the ids of the collection are distinct after the
  call exactly when they were before and the generated id is not among them. The effect
  writes the new collection.
\<close>

theorem addItem_validation:
  "(crop (form pg) = [] \<or> location (form pg) = [] \<or> contact (form pg) = [] \<longrightarrow>
      addItem e (genId src) now pg = pg)
 \<and> (crop (form pg) \<noteq> [] \<and> location (form pg) \<noteq> [] \<and> contact (form pg) \<noteq> [] \<longrightarrow>
      (\<exists>x. items (addItem e (genId src) now pg) = items pg @ [x]
          \<and> item_id x = genId src \<and> ts x = now \<and> listing_form.truncate x = form pg)
      \<and> (distinct (map item_id (items (addItem e (genId src) now pg))) \<longleftrightarrow>
           distinct (map item_id (items pg)) \<and> genId src \<notin> item_id ` set (items pg))
      \<and> localStorage (addItem e (genId src) now pg) =
          persist e ''mandi-items'' (items (addItem e (genId src) now pg)) (localStorage pg))
 \<and> (\<forall>u. crypto src = RandomUUID (Inr u) \<longrightarrow> genId src = u)
 \<and> (crypto src = NoRandomUUID \<or> (\<exists>err. crypto src = RandomUUID (Inl err)) \<longrightarrow>
      genId src = ''id-'' @ take 7 (drop 2 (random36 src)) @ ''-''
                  @ drop (length (now36 src) - 5) (now36 src))"
proof (intro conjI impI allI)
  assume "crop (form pg) = [] \<or> location (form pg) = [] \<or> contact (form pg) = []"
  then show "addItem e (genId src) now pg = pg" by (rule addItem_rejected)
next
  assume v: "crop (form pg) \<noteq> [] \<and> location (form pg) \<noteq> [] \<and> contact (form pg) \<noteq> []"
  then have a: "items (addItem e (genId src) now pg)
                  = items pg @ [new_listing (genId src) now (form pg)]"
    by (simp add: items_addItem_accepted)
  show "\<exists>x. items (addItem e (genId src) now pg) = items pg @ [x]
          \<and> item_id x = genId src \<and> ts x = now \<and> listing_form.truncate x = form pg"
    using a item_id_new_listing ts_new_listing truncate_new_listing by blast
  show "localStorage (addItem e (genId src) now pg) =
          persist e ''mandi-items'' (items (addItem e (genId src) now pg)) (localStorage pg)"
    using v by (simp add: localStorage_addItem_accepted a)
  show "distinct (map item_id (items (addItem e (genId src) now pg))) \<longleftrightarrow>
           distinct (map item_id (items pg)) \<and> genId src \<notin> item_id ` set (items pg)"
    by (auto simp: a item_id_new_listing)
next
  fix u
  assume "crypto src = RandomUUID (Inr u)"
  then show "genId src = u" by (simp add: genId_def)
next
  assume "crypto src = NoRandomUUID \<or> (\<exists>err. crypto src = RandomUUID (Inl err))"
  then show "genId src = ''id-'' @ take 7 (drop 2 (random36 src)) @ ''-''
                  @ drop (length (now36 src) - 5) (now36 src)"
    by (auto simp: genId_def slice_def slice_end_def)
qed

theorem addItem_validation_witness:
  "addItem plain_env ''a1'' 7 \<lparr>items = [], form = initial\<lparr>contact := []\<rparr>, localStorage = Map.empty\<rparr>
     = \<lparr>items = [], form = initial\<lparr>contact := []\<rparr>, localStorage = Map.empty\<rparr>
 \<and> (\<exists>x. items (addItem plain_env ''a1'' 7 \<lparr>items = [], form = initial, localStorage = Map.empty\<rparr>) = [x]
        \<and> item_id x = ''a1'' \<and> ts x = 7 \<and> listing_form.truncate x = initial)
 \<and> distinct (map item_id
       (items (addItem plain_env ''a1'' 7 \<lparr>items = [], form = initial, localStorage = Map.empty\<rparr>)))
 \<and> genId \<lparr>crypto = RandomUUID (Inl (TypeError ''not secure'')), random36 = ''0.k3j9x2f8a1'',
           now36 = ''lq3abcde''\<rparr> = ''id-k3j9x2f-abcde''"
proof -
  have g: "genId \<lparr>crypto = RandomUUID (Inr ''a1''), random36 = [], now36 = []\<rparr> = ''a1''"
    by (simp add: genId_def)
  show ?thesis
    using addItem_validation
            [where pg = "\<lparr>items = [], form = initial\<lparr>contact := []\<rparr>, localStorage = Map.empty\<rparr>"
               and e = plain_env and now = 7
               and src = "\<lparr>crypto = RandomUUID (Inr ''a1''), random36 = [], now36 = []\<rparr>"]
          addItem_validation
            [where pg = "\<lparr>items = [], form = initial, localStorage = Map.empty\<rparr>"
               and e = plain_env and now = 7
               and src = "\<lparr>crypto = RandomUUID (Inr ''a1''), random36 = [], now36 = []\<rparr>"]
          addItem_validation
            [where pg = "\<lparr>items = [], form = initial, localStorage = Map.empty\<rparr>"
               and e = plain_env and now = 7
               and src = "\<lparr>crypto = RandomUUID (Inl (TypeError ''not secure'')),
                           random36 = ''0.k3j9x2f8a1'', now36 = ''lq3abcde''\<rparr>"]
    by (simp add: initial_def g)
qed

text \<open>
  Claim C10. \<open>addItem\<close> checks nothing but that crop, location and contact are not empty:
  it appends exactly when they are, and then stores whatever quantity and price the form
  holds, also zero, a negative number or NaN.
\<close>

theorem addItem_ignores_qty_and_price:
  "items (addItem e gid now pg) =
     (if crop (form pg) = [] \<or> location (form pg) = [] \<or> contact (form pg) = [] then items pg
      else items pg @ [new_listing gid now (form pg)])
 \<and> (crop f \<noteq> [] \<and> location f \<noteq> [] \<and> contact f \<noteq> [] \<longrightarrow>
      (\<exists>x. items (addItem e gid now (pg\<lparr>form := f\<lparr>qty := q, price := p\<rparr>\<rparr>)) = items pg @ [x]
           \<and> qty x = q \<and> price x = p))"
proof (intro conjI impI)
  show "items (addItem e gid now pg) =
     (if crop (form pg) = [] \<or> location (form pg) = [] \<or> contact (form pg) = [] then items pg
      else items pg @ [new_listing gid now (form pg)])"
    by (simp add: addItem_def Let_def items_run_effect)
next
  assume "crop f \<noteq> [] \<and> location f \<noteq> [] \<and> contact f \<noteq> []"
  then have "items (addItem e gid now (pg\<lparr>form := f\<lparr>qty := q, price := p\<rparr>\<rparr>))
             = items pg @ [new_listing gid now (f\<lparr>qty := q, price := p\<rparr>)]"
    by (simp add: items_addItem_accepted)
  moreover have "qty (new_listing gid now (f\<lparr>qty := q, price := p\<rparr>)) = q"
    and "price (new_listing gid now (f\<lparr>qty := q, price := p\<rparr>)) = p"
    by (simp_all add: new_listing_def)
  ultimately show "\<exists>x. items (addItem e gid now (pg\<lparr>form := f\<lparr>qty := q, price := p\<rparr>\<rparr>)) = items pg @ [x]
           \<and> qty x = q \<and> price x = p"
    by blast
qed

theorem addItem_ignores_qty_and_price_witness:
  "(\<exists>x. items (addItem plain_env ''a1'' 7
            \<lparr>items = [], form = initial\<lparr>qty := NaN, price := Num (- 5)\<rparr>, localStorage = Map.empty\<rparr>) = [x]
       \<and> qty x = NaN \<and> price x = Num (- 5))
 \<and> (\<exists>x. items (addItem plain_env ''a2'' 8
            \<lparr>items = [], form = initial\<lparr>qty := Num 0, price := Num 0\<rparr>, localStorage = Map.empty\<rparr>) = [x]
       \<and> qty x = Num 0 \<and> price x = Num 0)"
  using addItem_ignores_qty_and_price
          [where e = plain_env and gid = "''a1''" and now = 7 and f = initial and q = NaN and p = "Num (- 5)"
             and pg = "\<lparr>items = [], form = initial, localStorage = Map.empty\<rparr>"]
        addItem_ignores_qty_and_price
          [where e = plain_env and gid = "''a2''" and now = 8 and f = initial and q = "Num 0" and p = "Num 0"
             and pg = "\<lparr>items = [], form = initial, localStorage = Map.empty\<rparr>"]
  by (simp add: initial_def)

section \<open>Properties of loading and of disease detection\<close>

text \<open>
  Claim C9. Loading the listing collection gives the empty collection when the record is
  missing and when its text does not parse, and loading never throws.
\<close>

theorem load_items_fails_open:
  "(getItem ''mandi-items'' = Inr None
      \<or> (\<exists>text err. getItem ''mandi-items'' = Inr (Some text) \<and> JSON_parse text = Inl err)
    \<longrightarrow> load_items getItem JSON_parse = Inr [])
 \<and> (\<exists>v. load_items getItem JSON_parse = Inr v)"
  by (auto simp: load_items_def useLocalStorage_init_def split: sum.splits option.splits)

theorem load_items_fails_open_witness:
  "load_items (\<lambda>k. Inr None) (\<lambda>t. Inl (SyntaxError ''Unexpected token'')) = Inr []
 \<and> load_items (\<lambda>k. Inr (Some ''[{'')) (\<lambda>t. Inl (SyntaxError ''Unexpected token'')) = Inr []"
  using load_items_fails_open [of "\<lambda>k. Inr None" "\<lambda>t. Inl (SyntaxError ''Unexpected token'')"]
        load_items_fails_open [of "\<lambda>k. Inr (Some ''[{'')" "\<lambda>t. Inl (SyntaxError ''Unexpected token'')"]
  by simp

lemma wrapper_on_rejection:
  "detectDisease fetch file = Inl err \<Longrightarrow> detectDiseaseWithBackend fetch file = Inr fallback"
  by (simp add: detectDiseaseWithBackend_def)

lemma wrapper_total: "\<exists>v. detectDiseaseWithBackend fetch file = Inr v"
  by (simp add: detectDiseaseWithBackend_def split: sum.splits)

lemma detectDisease_network_error: "fetch file = Inl err \<Longrightarrow> detectDisease fetch file = Inl err"
  by (simp add: detectDisease_def)

lemma detectDisease_bad_status:
  "fetch file = Inr res \<Longrightarrow> \<not> (200 \<le> status res \<and> status res \<le> 299) \<Longrightarrow>
   detectDisease fetch file = Inl (Error ''Detection failed'')"
  by (simp add: detectDisease_def ok_def)

lemma wrapper_on_object:
  "fetch file = Inr res \<Longrightarrow> 200 \<le> status res \<Longrightarrow> status res \<le> 299 \<Longrightarrow>
   json res = Inr (JObj kvs) \<Longrightarrow>
   detectDiseaseWithBackend fetch file =
     Inr \<lparr>name = map_of kvs ''disease'', remedy = map_of kvs ''remedy'',
          confidence = map_of kvs ''confidence''\<rparr>"
  by (simp add: detectDiseaseWithBackend_def detectDisease_def ok_def)

text \<open>
  Claim C4. Whenever \<open>detectDisease\<close> rejects, in particular on a network error and on a
  response that is not 2xx, \<open>detectDiseaseWithBackend\<close> resolves to the fixed result
  with the name \<open>Unavailable\<close>, the remedy \<open>Backend not reachable.\<close> and the confidence
  0; it never rejects; on a 2xx response carrying an object it resolves to that
  object's \<open>disease\<close>, \<open>remedy\<close> and \<open>confidence\<close>.
\<close>

theorem detectDiseaseWithBackend_falls_back:
  "((\<exists>err. detectDisease fetch file = Inl err) \<longrightarrow>
       detectDiseaseWithBackend fetch file =
         Inr \<lparr>name = Some (JStr ''Unavailable''), remedy = Some (JStr ''Backend not reachable.''),
            confidence = Some (JNum 0)\<rparr>)
 \<and> ((\<exists>err. fetch file = Inl err) \<longrightarrow> detectDiseaseWithBackend fetch file =
         Inr \<lparr>name = Some (JStr ''Unavailable''), remedy = Some (JStr ''Backend not reachable.''),
            confidence = Some (JNum 0)\<rparr>)
 \<and> ((\<exists>res. fetch file = Inr res \<and> \<not> (200 \<le> status res \<and> status res \<le> 299)) \<longrightarrow>
       detectDiseaseWithBackend fetch file =
         Inr \<lparr>name = Some (JStr ''Unavailable''), remedy = Some (JStr ''Backend not reachable.''),
            confidence = Some (JNum 0)\<rparr>)
 \<and> (\<exists>v. detectDiseaseWithBackend fetch file = Inr v)
 \<and> (\<forall>res kvs. fetch file = Inr res \<and> 200 \<le> status res \<and> status res \<le> 299
        \<and> json res = Inr (JObj kvs) \<longrightarrow>
       detectDiseaseWithBackend fetch file =
         Inr \<lparr>name = map_of kvs ''disease'', remedy = map_of kvs ''remedy'',
              confidence = map_of kvs ''confidence''\<rparr>)"
proof (intro conjI impI allI)
  assume "\<exists>err. detectDisease fetch file = Inl err"
  then obtain err where "detectDisease fetch file = Inl err" ..
  then show "detectDiseaseWithBackend fetch file =
         Inr \<lparr>name = Some (JStr ''Unavailable''), remedy = Some (JStr ''Backend not reachable.''),
            confidence = Some (JNum 0)\<rparr>"
    by (simp add: wrapper_on_rejection fallback_def)
next
  assume "\<exists>err. fetch file = Inl err"
  then obtain err where "fetch file = Inl err" ..
  then have "detectDisease fetch file = Inl err"
    by (rule detectDisease_network_error)
  then show "detectDiseaseWithBackend fetch file =
         Inr \<lparr>name = Some (JStr ''Unavailable''), remedy = Some (JStr ''Backend not reachable.''),
            confidence = Some (JNum 0)\<rparr>"
    by (simp add: wrapper_on_rejection fallback_def)
next
  assume "\<exists>res. fetch file = Inr res \<and> \<not> (200 \<le> status res \<and> status res \<le> 299)"
  then obtain res where "fetch file = Inr res" "\<not> (200 \<le> status res \<and> status res \<le> 299)"
    by blast
  then have "detectDisease fetch file = Inl (Error ''Detection failed'')"
    by (rule detectDisease_bad_status)
  then show "detectDiseaseWithBackend fetch file =
         Inr \<lparr>name = Some (JStr ''Unavailable''), remedy = Some (JStr ''Backend not reachable.''),
            confidence = Some (JNum 0)\<rparr>"
    by (simp add: wrapper_on_rejection fallback_def)
next
  show "\<exists>v. detectDiseaseWithBackend fetch file = Inr v" by (rule wrapper_total)
next
  fix res kvs
  assume "fetch file = Inr res \<and> 200 \<le> status res \<and> status res \<le> 299
        \<and> json res = Inr (JObj kvs)"
  then show "detectDiseaseWithBackend fetch file =
         Inr \<lparr>name = map_of kvs ''disease'', remedy = map_of kvs ''remedy'',
              confidence = map_of kvs ''confidence''\<rparr>"
    using wrapper_on_object [of fetch "file" res kvs] by simp
qed

theorem detectDiseaseWithBackend_falls_back_witness:
  "detectDiseaseWithBackend (\<lambda>f. Inl (TypeError ''Failed to fetch'')) ()
     = Inr \<lparr>name = Some (JStr ''Unavailable''), remedy = Some (JStr ''Backend not reachable.''),
            confidence = Some (JNum 0)\<rparr>
 \<and> detectDiseaseWithBackend (\<lambda>f. Inr \<lparr>status = 500, json = Inr JNull\<rparr>) ()
     = Inr \<lparr>name = Some (JStr ''Unavailable''), remedy = Some (JStr ''Backend not reachable.''),
            confidence = Some (JNum 0)\<rparr>
 \<and> detectDiseaseWithBackend
      (\<lambda>f. Inr \<lparr>status = 200,
                 json = Inr (JObj [(''disease'', JStr ''Leaf Blight''), (''remedy'', JStr ''Spray''),
                                   (''confidence'', JNum (9 / 10))])\<rparr>) ()
     = Inr \<lparr>name = Some (JStr ''Leaf Blight''), remedy = Some (JStr ''Spray''),
            confidence = Some (JNum (9 / 10))\<rparr>"
  using detectDiseaseWithBackend_falls_back [of "\<lambda>f. Inl (TypeError ''Failed to fetch'')" "()"]
        detectDiseaseWithBackend_falls_back [of "\<lambda>f. Inr \<lparr>status = 500, json = Inr JNull\<rparr>" "()"]
        detectDiseaseWithBackend_falls_back
          [of "\<lambda>f. Inr \<lparr>status = 200,
                 json = Inr (JObj [(''disease'', JStr ''Leaf Blight''), (''remedy'', JStr ''Spray''),
                                   (''confidence'', JNum (9 / 10))])\<rparr>" "()"]
  by simp

end
